theory Spec2Isabelle
  imports Complex_Main
begin

section \<open>Values of the interpreter\<close>

text \<open>
  The program is \<^verbatim>\<open>webbshop.py\<close>. Its integers are Python's unbounded \<^verbatim>\<open>int\<close>,
  modelled as \<^typ>\<open>int\<close>; its strings are modelled as \<^typ>\<open>string\<close> (one \<^typ>\<open>char\<close>
  per character, which covers ASCII text). An exception is a value of \<open>error\<close>.
\<close>

datatype error = ValueError | TypeError | KeyError | CsvError | EOFError

definition CR :: char where
  "CR = CHR 0x0D"

definition LF :: char where
  "LF = CHR 0x0A"

definition DQUOTE :: char where
  "DQUOTE = CHR 0x22"

definition Py_ISSPACE :: "char \<Rightarrow> bool" where
  "Py_ISSPACE c = (let n = (of_char c :: nat) in (9 \<le> n \<and> n \<le> 13) \<or> n = 32)"

definition digit_value :: "char \<Rightarrow> nat option" where
  "digit_value c =
     (let n = (of_char c :: nat) in if 48 \<le> n \<and> n \<le> 57 then Some (n - 48) else None)"

definition is_digit :: "char \<Rightarrow> bool" where
  "is_digit c = (digit_value c \<noteq> None)"

text \<open>\<^verbatim>\<open>str.lower()\<close> on ASCII text.\<close>

definition lower_char :: "char \<Rightarrow> char" where
  "lower_char c =
     (let n = (of_char c :: nat) in if 65 \<le> n \<and> n \<le> 90 then char_of (n + 32) else c)"

definition lower :: "string \<Rightarrow> string" where
  "lower s = map lower_char s"

subsection \<open>\<^verbatim>\<open>int(s)\<close> and \<^verbatim>\<open>str(i)\<close>\<close>

text \<open>
  \<^verbatim>\<open>int(s)\<close> on a string, base 10: white space on both sides is skipped, one sign is
  allowed, then at least one digit; a single underscore may stand between two digits.
  Anything else raises \<^verbatim>\<open>ValueError\<close>, here \<open>None\<close>. The interpreter's limit on the
  number of digits of a conversion (4300 unless configured otherwise) is not modelled.
\<close>

fun digits_value :: "nat \<Rightarrow> string \<Rightarrow> nat" where
  "digits_value acc [] = acc"
| "digits_value acc (c # cs) =
     (case digit_value c of
        None \<Rightarrow> digits_value acc cs
      | Some d \<Rightarrow> digits_value (10 * acc + d) cs)"

text \<open>
  The underscore rule shared by \<^verbatim>\<open>int\<close> and \<^verbatim>\<open>float\<close>: an underscore must follow a
  digit and be followed by a digit. \<open>prev\<close> is the character before, if any.
\<close>

fun underscores_ok :: "char option \<Rightarrow> string \<Rightarrow> bool" where
  "underscores_ok prev [] = (prev \<noteq> Some (CHR ''_''))"
| "underscores_ok prev (c # cs) =
     (if c = CHR ''_''
      then (case prev of None \<Rightarrow> False | Some p \<Rightarrow> is_digit p) \<and> underscores_ok (Some c) cs
      else (prev = Some (CHR ''_'') \<longrightarrow> is_digit c) \<and> underscores_ok (Some c) cs)"

definition strip :: "string \<Rightarrow> string" where
  "strip s = rev (dropWhile Py_ISSPACE (rev (dropWhile Py_ISSPACE s)))"

definition split_sign :: "string \<Rightarrow> bool \<times> string" where
  "split_sign s =
     (case s of
        [] \<Rightarrow> (False, [])
      | c # cs \<Rightarrow> if c = CHR ''-'' then (True, cs) else if c = CHR ''+'' then (False, cs)
                 else (False, s))"

definition digitpart :: "string \<Rightarrow> bool" where
  "digitpart s = (s \<noteq> [] \<and> (\<forall>c \<in> set s. is_digit c \<or> c = CHR ''_'') \<and>
                  is_digit (hd s) \<and> underscores_ok None s)"

definition py_int :: "string \<Rightarrow> int option" where
  "py_int s =
     (let (neg, ds) = split_sign (strip s)
      in if digitpart ds
         then Some (if neg then - int (digits_value 0 ds) else int (digits_value 0 ds))
         else None)"

text \<open>\<^verbatim>\<open>str(i)\<close> of an integer: its decimal digits, with a minus sign when negative.\<close>

fun str_nat :: "nat \<Rightarrow> string" where
  "str_nat n = (if n < 10 then [char_of (48 + n)] else str_nat (n div 10) @ [char_of (48 + n mod 10)])"

declare str_nat.simps [simp del]

definition str_int :: "int \<Rightarrow> string" where
  "str_int i = (if i < 0 then CHR ''-'' # str_nat (nat (- i)) else str_nat (nat i))"

subsection \<open>\<^verbatim>\<open>float(s)\<close>\<close>

text \<open>
  \<^verbatim>\<open>float(s)\<close> accepts, between white space, an optional sign followed by
  \<^verbatim>\<open>inf\<close>, \<^verbatim>\<open>infinity\<close> or \<^verbatim>\<open>nan\<close> in any case, or by a decimal numeral: digits with
  an optional point and an optional exponent, at least one digit in the mantissa,
  underscores only between digits. \<open>float_literal\<close> decides this and gives the number
  the string denotes. Python then rounds that number to a binary64 value; the rounding
  is not modelled: it is the parameter \<open>rnd\<close> of every function that calls
  \<^verbatim>\<open>float\<close>, and \<open>'f\<close> stands for the type of Python's floats.
\<close>

datatype float_lit = Decimal bool rat | Infinity bool | NotANumber bool

definition remove_underscores :: "string \<Rightarrow> string option" where
  "remove_underscores s =
     (if underscores_ok None s then Some (filter (\<lambda>c. c \<noteq> CHR ''_'') s) else None)"

definition all_digits :: "string \<Rightarrow> bool" where
  "all_digits s = (\<forall>c \<in> set s. is_digit c)"

text \<open>The exponent part after the mantissa: empty, or \<^verbatim>\<open>e\<close>, a sign and digits.\<close>

definition exponent_value :: "string \<Rightarrow> int option" where
  "exponent_value s =
     (case s of
        [] \<Rightarrow> Some 0
      | c # cs \<Rightarrow>
          if c = CHR ''e'' \<or> c = CHR ''E''
          then (let (neg, ds) = split_sign cs
                in if ds \<noteq> [] \<and> all_digits ds
                   then Some (if neg then - int (digits_value 0 ds) else int (digits_value 0 ds))
                   else None)
          else None)"

definition scale10 :: "rat \<Rightarrow> int \<Rightarrow> rat" where
  "scale10 m e = (if 0 \<le> e then m * 10 ^ nat e else m / 10 ^ nat (- e))"

definition decimal_value :: "string \<Rightarrow> rat option" where
  "decimal_value s =
     (let ip = takeWhile is_digit s;
          r1 = dropWhile is_digit s;
          (fp, r2) = (case r1 of
                        [] \<Rightarrow> ([], [])
                      | c # cs \<Rightarrow> if c = CHR ''.''
                                 then (takeWhile is_digit cs, dropWhile is_digit cs)
                                 else ([], r1))
      in if ip = [] \<and> fp = [] then None
         else (case exponent_value r2 of
                 None \<Rightarrow> None
               | Some e \<Rightarrow>
                   Some (scale10 (of_nat (digits_value 0 (ip @ fp))) (e - int (length fp)))))"

definition float_literal :: "string \<Rightarrow> float_lit option" where
  "float_literal s =
     (case remove_underscores s of
        None \<Rightarrow> None
      | Some t \<Rightarrow>
          (let (neg, body) = split_sign (strip t)
           in if lower body = ''inf'' \<or> lower body = ''infinity'' then Some (Infinity neg)
              else if lower body = ''nan'' then Some (NotANumber neg)
              else map_option (Decimal neg) (decimal_value body)))"

definition py_float :: "(float_lit \<Rightarrow> 'f) \<Rightarrow> string \<Rightarrow> 'f option" where
  "py_float rnd s = map_option rnd (float_literal s)"

section \<open>Products and the inventory\<close>

text \<open>
  \<^verbatim>\<open>class Product\<close>. The field \<^verbatim>\<open>id\<close> is called \<open>product_id\<close>, after the constructor's
  parameter. \<open>name\<close> and \<open>desc\<close> are a string or Python's \<^verbatim>\<open>None\<close>: \<^verbatim>\<open>load_data\<close>
  stores what \<^verbatim>\<open>csv.DictReader\<close> gives it, and that is \<^verbatim>\<open>None\<close> for a column the row
  does not reach.
\<close>

record 'f product =
  product_id :: int
  name :: "string option"
  desc :: "string option"
  price :: 'f
  quantity :: int

text \<open>
  \<^verbatim>\<open>class Inventory\<close> holds one list, \<^verbatim>\<open>self.products\<close>. Every method is a function
  of that list and returns the new one. A method that can raise returns the list as
  the exception leaves it, with the exception.
\<close>

type_synonym 'f inventory = "'f product list"

text \<open>
  \<^verbatim>\<open>get_next_id\<close>: 1 when the list is empty, else \<^verbatim>\<open>max\<close> of the ids plus 1. \<open>max_id\<close> is
  the scan \<^verbatim>\<open>max\<close> makes, keeping the largest id seen so far.
\<close>

fun max_id :: "int \<Rightarrow> 'f inventory \<Rightarrow> int" where
  "max_id m [] = m"
| "max_id m (p # ps) = max_id (if m < product_id p then product_id p else m) ps"

fun get_next_id :: "'f inventory \<Rightarrow> int" where
  "get_next_id [] = 1"
| "get_next_id (p # ps) = max_id (product_id p) ps + 1"

fun get_product_by_id :: "'f inventory \<Rightarrow> int \<Rightarrow> 'f product option" where
  "get_product_by_id [] i = None"
| "get_product_by_id (p # ps) i =
     (if product_id p = i then Some p else get_product_by_id ps i)"

text \<open>
  \<^verbatim>\<open>remove_product\<close>: the comprehension keeps the products with another id, then the
  loop over \<^verbatim>\<open>enumerate\<close> gives the product at index \<open>i\<close> the id \<open>i + 1\<close>.
\<close>

definition renumber :: "'f inventory \<Rightarrow> 'f inventory" where
  "renumber ps = map (\<lambda>(i, p). p\<lparr>product_id := int i + 1\<rparr>) (enumerate 0 ps)"

definition remove_product :: "'f inventory \<Rightarrow> int \<Rightarrow> 'f inventory" where
  "remove_product ps i = renumber (filter (\<lambda>p. product_id p \<noteq> i) ps)"

text \<open>
  \<^verbatim>\<open>update_product\<close> assigns to a field of the object that \<^verbatim>\<open>get_product_by_id\<close>
  returned, which is the first product of the list with that id: \<open>assign\<close> changes
  that element in place.
\<close>

fun assign :: "'f inventory \<Rightarrow> int \<Rightarrow> ('f product \<Rightarrow> 'f product) \<Rightarrow> 'f inventory" where
  "assign [] i f = []"
| "assign (p # ps) i f = (if product_id p = i then f p # ps else p # assign ps i f)"

definition update_product ::
  "(float_lit \<Rightarrow> 'f) \<Rightarrow> 'f inventory \<Rightarrow> int \<Rightarrow> string \<Rightarrow> string \<Rightarrow> 'f inventory \<times> error option"
where
  "update_product rnd ps i field new_value =
     (case get_product_by_id ps i of
        None \<Rightarrow> (ps, None)
      | Some p \<Rightarrow>
          if field = ''name'' then (assign ps i (\<lambda>p. p\<lparr>name := Some new_value\<rparr>), None)
          else if field = ''desc'' then (assign ps i (\<lambda>p. p\<lparr>desc := Some new_value\<rparr>), None)
          else if field = ''price'' then
            (case py_float rnd new_value of
               None \<Rightarrow> (ps, Some ValueError)
             | Some x \<Rightarrow> (assign ps i (\<lambda>p. p\<lparr>price := x\<rparr>), None))
          else if field = ''quantity'' then
            (case py_int new_value of
               None \<Rightarrow> (ps, Some ValueError)
             | Some n \<Rightarrow> (assign ps i (\<lambda>p. p\<lparr>quantity := n\<rparr>), None))
          else (ps, None))"

definition add_product :: "'f inventory \<Rightarrow> 'f product \<Rightarrow> 'f inventory" where
  "add_product ps p = ps @ [p]"

section \<open>The product file\<close>

text \<open>
  A file system maps a path to the text of the file there. \<^verbatim>\<open>save_data\<close> and
  \<^verbatim>\<open>load_data\<close> go through Python's \<^verbatim>\<open>csv\<close> module in its default dialect
  (\<^verbatim>\<open>excel\<close>: delimiter comma, quote character \<^verbatim>\<open>"\<close>, \<^verbatim>\<open>doublequote\<close>, minimal
  quoting, line terminator CR LF, no escape character, not strict). The module is
  modelled for that dialect.
\<close>

type_synonym files = "string \<rightharpoonup> string"

subsection \<open>\<^verbatim>\<open>csv.DictWriter\<close>\<close>

text \<open>
  The writer puts a field between quotes when it holds the delimiter, the quote
  character or a character of the line terminator, and doubles every quote character
  in it. \<^verbatim>\<open>None\<close> is written as the empty field; a row that is one empty field is
  written as \<^verbatim>\<open>""\<close>.
\<close>

definition needs_quotes :: "string \<Rightarrow> bool" where
  "needs_quotes s = (\<exists>c \<in> set s. c = CHR '','' \<or> c = DQUOTE \<or> c = CR \<or> c = LF)"

definition join_append :: "string option \<Rightarrow> string" where
  "join_append f =
     (case f of
        None \<Rightarrow> []
      | Some s \<Rightarrow>
          if needs_quotes s
          then DQUOTE # concat (map (\<lambda>c. if c = DQUOTE then [DQUOTE, DQUOTE] else [c]) s) @ [DQUOTE]
          else s)"

fun join_fields :: "string list \<Rightarrow> string" where
  "join_fields [] = []"
| "join_fields [f] = f"
| "join_fields (f # g # fs) = f @ CHR '','' # join_fields (g # fs)"

definition writerow :: "string option list \<Rightarrow> string" where
  "writerow row =
     (let line = join_fields (map join_append row)
      in (if row \<noteq> [] \<and> line = [] then [DQUOTE, DQUOTE] else line) @ [CR, LF])"

definition fieldnames :: "string list" where
  "fieldnames = [''id'', ''name'', ''desc'', ''price'', ''quantity'']"

text \<open>
  \<^verbatim>\<open>save_data\<close> opens the file for writing with \<^verbatim>\<open>newline=''\<close>, so the text goes to
  the file as the writer made it. The writer takes \<^verbatim>\<open>str\<close> of a number; for a float
  that is its \<^verbatim>\<open>repr\<close>, the parameter \<open>repr\<close>.
\<close>

definition product_row :: "('f \<Rightarrow> string) \<Rightarrow> 'f product \<Rightarrow> string option list" where
  "product_row repr p =
     [Some (str_int (product_id p)), name p, desc p, Some (repr (price p)),
      Some (str_int (quantity p))]"

definition save_data :: "('f \<Rightarrow> string) \<Rightarrow> files \<Rightarrow> 'f inventory \<Rightarrow> string \<Rightarrow> files" where
  "save_data repr fs ps filename =
     fs(filename \<mapsto> writerow (map Some fieldnames) @ concat (map (\<lambda>p. writerow (product_row repr p)) ps))"

subsection \<open>Reading a text file\<close>

text \<open>
  \<^verbatim>\<open>load_data\<close> opens the file with \<^verbatim>\<open>open(filename, 'r')\<close>: the default
  \<^verbatim>\<open>newline=None\<close> turns every CR LF and every lone CR of the file into LF before the
  program sees the text. Iterating over the file gives its lines, each with its LF.
\<close>

fun universal_newlines :: "string \<Rightarrow> string" where
  "universal_newlines [] = []"
| "universal_newlines [c] = [if c = CR then LF else c]"
| "universal_newlines (c # d # cs) =
     (if c = CR \<and> d = LF then LF # universal_newlines cs
      else if c = CR then LF # universal_newlines (d # cs)
      else c # universal_newlines (d # cs))"

fun readlines :: "string \<Rightarrow> string \<Rightarrow> string list" where
  "readlines acc [] = (if acc = [] then [] else [acc])"
| "readlines acc (c # cs) =
     (if c = LF then (acc @ [c]) # readlines [] cs else readlines (acc @ [c]) cs)"

definition open_read :: "string \<Rightarrow> string list" where
  "open_read content = readlines [] (universal_newlines content)"

subsection \<open>\<^verbatim>\<open>csv.reader\<close>\<close>

text \<open>
  The reader is the state machine of \<^verbatim>\<open>_csv.c\<close>. The states that only an escape
  character reaches are left out. \<open>parse_process_char\<close> takes a character of the line,
  or \<open>None\<close> for the end of the line. \<^verbatim>\<open>csv.Error\<close> is \<open>CsvError\<close>.
\<close>

datatype parser_state =
  START_RECORD | START_FIELD | IN_FIELD | IN_QUOTED_FIELD | QUOTE_IN_QUOTED_FIELD | EAT_CRNL

record reader =
  r_state :: parser_state
  r_fields :: "string list"
  r_field :: string

definition field_limit :: int where
  "field_limit = 131072"

definition parse_reset :: reader where
  "parse_reset = \<lparr>r_state = START_RECORD, r_fields = [], r_field = []\<rparr>"

definition parse_save_field :: "reader \<Rightarrow> reader" where
  "parse_save_field r = r\<lparr>r_fields := r_fields r @ [r_field r], r_field := []\<rparr>"

definition parse_add_char :: "reader \<Rightarrow> char \<Rightarrow> parser_state \<Rightarrow> error + reader" where
  "parse_add_char r c st =
     (if field_limit \<le> int (length (r_field r)) then Inl CsvError
      else Inr (r\<lparr>r_field := r_field r @ [c], r_state := st\<rparr>))"

definition end_of_record :: "reader \<Rightarrow> char option \<Rightarrow> reader" where
  "end_of_record r c =
     (parse_save_field r)\<lparr>r_state := (if c = None then START_RECORD else EAT_CRNL)\<rparr>"

definition is_newline :: "char option \<Rightarrow> bool" where
  "is_newline c = (c = Some LF \<or> c = Some CR)"

definition start_field :: "reader \<Rightarrow> char option \<Rightarrow> error + reader" where
  "start_field r c =
     (if is_newline c \<or> c = None then Inr (end_of_record r c)
      else if c = Some DQUOTE then Inr (r\<lparr>r_state := IN_QUOTED_FIELD\<rparr>)
      else if c = Some (CHR '','') then Inr ((parse_save_field r)\<lparr>r_state := START_FIELD\<rparr>)
      else parse_add_char r (the c) IN_FIELD)"

definition parse_process_char :: "reader \<Rightarrow> char option \<Rightarrow> error + reader" where
  "parse_process_char r c =
     (case r_state r of
        START_RECORD \<Rightarrow>
          if c = None then Inr r
          else if is_newline c then Inr (r\<lparr>r_state := EAT_CRNL\<rparr>)
          else start_field r c
      | START_FIELD \<Rightarrow> start_field r c
      | IN_FIELD \<Rightarrow>
          if is_newline c \<or> c = None then Inr (end_of_record r c)
          else if c = Some (CHR '','') then Inr ((parse_save_field r)\<lparr>r_state := START_FIELD\<rparr>)
          else parse_add_char r (the c) IN_FIELD
      | IN_QUOTED_FIELD \<Rightarrow>
          if c = None then Inr r
          else if c = Some DQUOTE then Inr (r\<lparr>r_state := QUOTE_IN_QUOTED_FIELD\<rparr>)
          else parse_add_char r (the c) IN_QUOTED_FIELD
      | QUOTE_IN_QUOTED_FIELD \<Rightarrow>
          if c = Some DQUOTE then parse_add_char r DQUOTE IN_QUOTED_FIELD
          else if c = Some (CHR '','') then Inr ((parse_save_field r)\<lparr>r_state := START_FIELD\<rparr>)
          else if is_newline c \<or> c = None then Inr (end_of_record r c)
          else parse_add_char r (the c) IN_FIELD
      | EAT_CRNL \<Rightarrow>
          if is_newline c then Inr r
          else if c = None then Inr (r\<lparr>r_state := START_RECORD\<rparr>)
          else Inl CsvError)"

fun parse_line :: "reader \<Rightarrow> string \<Rightarrow> error + reader" where
  "parse_line r [] = parse_process_char r None"
| "parse_line r (c # cs) =
     (case parse_process_char r (Some c) of
        Inl e \<Rightarrow> Inl e
      | Inr r' \<Rightarrow> parse_line r' cs)"

text \<open>
  All the records the reader yields from the lines, in order, and the error that ends
  the iteration if there is one. A record is complete when a line leaves the machine in
  \<open>START_RECORD\<close>; at the end of the input an unfinished record is still yielded.
\<close>

fun reader_records :: "reader \<Rightarrow> string list \<Rightarrow> string list list \<times> error option" where
  "reader_records r [] =
     (if r_field r \<noteq> [] \<or> r_state r = IN_QUOTED_FIELD
      then ([r_fields (parse_save_field r)], None) else ([], None))"
| "reader_records r (l # ls) =
     (case parse_line r l of
        Inl e \<Rightarrow> ([], Some e)
      | Inr r' \<Rightarrow>
          if r_state r' = START_RECORD
          then (case reader_records parse_reset ls of (recs, e) \<Rightarrow> (r_fields r' # recs, e))
          else reader_records r' ls)"

definition csv_reader :: "string list \<Rightarrow> string list list \<times> error option" where
  "csv_reader ls = reader_records parse_reset ls"

subsection \<open>\<^verbatim>\<open>csv.DictReader\<close> and \<^verbatim>\<open>load_data\<close>\<close>

text \<open>
  \<^verbatim>\<open>DictReader\<close> takes the first record as the field names, skips every later record
  that is empty, and makes of a record the dictionary of \<^verbatim>\<open>zip(fieldnames, row)\<close>,
  with \<^verbatim>\<open>None\<close> for each field name the row does not reach. A later entry for the
  same key replaces an earlier one.
\<close>

definition row_dict :: "string list \<Rightarrow> string list \<Rightarrow> (string \<rightharpoonup> string option)" where
  "row_dict names row =
     map_of (rev (zip names (map Some row @ replicate (length names - length row) None)))"

definition getitem :: "(string \<rightharpoonup> string option) \<Rightarrow> string \<Rightarrow> error + string option" where
  "getitem d k = (case d k of None \<Rightarrow> Inl KeyError | Some v \<Rightarrow> Inr v)"

definition int_arg :: "string option \<Rightarrow> error + int" where
  "int_arg v =
     (case v of
        None \<Rightarrow> Inl TypeError
      | Some s \<Rightarrow> (case py_int s of None \<Rightarrow> Inl ValueError | Some i \<Rightarrow> Inr i))"

definition float_arg :: "(float_lit \<Rightarrow> 'f) \<Rightarrow> string option \<Rightarrow> error + 'f" where
  "float_arg rnd v =
     (case v of
        None \<Rightarrow> Inl TypeError
      | Some s \<Rightarrow> (case py_float rnd s of None \<Rightarrow> Inl ValueError | Some x \<Rightarrow> Inr x))"

definition and_then :: "error + 'a \<Rightarrow> ('a \<Rightarrow> error + 'b) \<Rightarrow> error + 'b" where
  "and_then m f = (case m of Inl e \<Rightarrow> Inl e | Inr x \<Rightarrow> f x)"

text \<open>The call \<^verbatim>\<open>Product(product_id=int(row['id']), ...)\<close>, its arguments in order.\<close>

definition row_product ::
  "(float_lit \<Rightarrow> 'f) \<Rightarrow> (string \<rightharpoonup> string option) \<Rightarrow> error + 'f product"
where
  "row_product rnd row =
     and_then (and_then (getitem row ''id'') int_arg) (\<lambda>i.
     and_then (getitem row ''name'') (\<lambda>n.
     and_then (getitem row ''desc'') (\<lambda>d.
     and_then (and_then (getitem row ''price'') (float_arg rnd)) (\<lambda>x.
     and_then (and_then (getitem row ''quantity'') int_arg) (\<lambda>q.
     Inr \<lparr>product_id = i, name = n, desc = d, price = x, quantity = q\<rparr>)))))"

fun load_rows ::
  "(float_lit \<Rightarrow> 'f) \<Rightarrow> string list \<Rightarrow> string list list \<Rightarrow> 'f inventory \<Rightarrow>
   'f inventory \<times> error option"
where
  "load_rows rnd names [] ps = (ps, None)"
| "load_rows rnd names (row # rows) ps =
     (case row_product rnd (row_dict names row) of
        Inl e \<Rightarrow> (ps, Some e)
      | Inr p \<Rightarrow> load_rows rnd names rows (ps @ [p]))"

definition data_rows :: "string list list \<Rightarrow> string list list" where
  "data_rows records = filter (\<lambda>row. row \<noteq> []) (tl records)"

definition load_data ::
  "(float_lit \<Rightarrow> 'f) \<Rightarrow> files \<Rightarrow> 'f inventory \<Rightarrow> string \<Rightarrow> 'f inventory \<times> error option"
where
  "load_data rnd fs ps filename =
     (case fs filename of
        None \<Rightarrow> (ps, None)
      | Some content \<Rightarrow>
          (case csv_reader (open_read content) of
             ([], e) \<Rightarrow> (ps, e)
           | (names # records, e) \<Rightarrow>
               (case load_rows rnd names (filter (\<lambda>row. row \<noteq> []) records) ps of
                  (ps', Some e') \<Rightarrow> (ps', Some e')
                | (ps', None) \<Rightarrow> (ps', e))))"

section \<open>The session loop\<close>

text \<open>
  \<^verbatim>\<open>main\<close> reads lines from the standard input and writes to the standard output.
  The world of the program is its inventory, the lines not yet read, what it has
  written so far, and the files. What is written is a list of events: the screen is
  cleared, a line is printed, the table of products is printed, the full description
  of a product is printed, \<^verbatim>\<open>input\<close> shows its prompt. How a price is formatted in the
  table and in the description is not modelled.
\<close>

datatype 'f event =
  Clear | Print string | Table "'f inventory" | Details "'f product" | Prompt string

record 'f world =
  products :: "'f inventory"
  stdin :: "string list"
  stdout :: "'f event list"
  disk :: files

datatype 'f step = Continue "'f world" | Exit "'f world" | Crash error "'f world"

definition print :: "'f event \<Rightarrow> 'f world \<Rightarrow> 'f world" where
  "print e w = w\<lparr>stdout := stdout w @ [e]\<rparr>"

text \<open>\<^verbatim>\<open>input(prompt)\<close>: the prompt is written, then a line is read; \<open>None\<close> is \<^verbatim>\<open>EOFError\<close>.\<close>

definition input :: "string \<Rightarrow> 'f world \<Rightarrow> string option \<times> 'f world" where
  "input prompt w =
     (case stdin w of
        [] \<Rightarrow> (None, print (Prompt prompt) w)
      | l # ls \<Rightarrow> (Some l, (print (Prompt prompt) w)\<lparr>stdin := ls\<rparr>))"

definition ljust :: "nat \<Rightarrow> string \<Rightarrow> string" where
  "ljust n s = s @ replicate (n - length s) (CHR '' '')"

definition table_header :: string where
  "table_header =
     ljust 4 ''ID'' @ ''  '' @ ljust 15 ''Name'' @ ''   '' @ ljust 30 ''Description'' @ ''   '' @
     ljust 15 ''Price'' @ ''   '' @ ljust 10 ''Quantity''"

definition rule_line :: string where
  "rule_line = replicate 80 (CHR ''='')"

text \<open>
  \<^verbatim>\<open>display_products\<close>. \<^verbatim>\<open>Product.__str__\<close> takes \<^verbatim>\<open>len(self.name)\<close> and
  \<^verbatim>\<open>len(self.desc)\<close>, which raises \<^verbatim>\<open>TypeError\<close> when one of them is \<^verbatim>\<open>None\<close>.
\<close>

definition display_products :: "'f world \<Rightarrow> 'f world \<times> error option" where
  "display_products w =
     (let w1 = print (Print rule_line) (print (Print table_header) (print Clear w))
      in if \<exists>p \<in> set (products w). name p = None \<or> desc p = None
         then (w1, Some TypeError)
         else (print (Print rule_line) (print (Table (products w)) w1), None))"

definition menu :: string where
  "menu = LF # ''Actions: 'add' - Add product | 'exit' - Exit program | 'view' - View product by ID | 'update' - Update product | 'delete' - Delete product''"

definition invalid_id :: string where
  "invalid_id = ''Invalid input. Please enter a valid product ID.''"

definition not_found :: string where
  "not_found = LF # ''Product not found.''"

text \<open>The branch \<^verbatim>\<open>add\<close>: no \<^verbatim>\<open>try\<close> stands around \<^verbatim>\<open>float(price)\<close> and \<^verbatim>\<open>int(quantity)\<close>.\<close>

definition add_action :: "(float_lit \<Rightarrow> 'f) \<Rightarrow> 'f world \<Rightarrow> 'f step" where
  "add_action rnd w =
     (let new_id = get_next_id (products w)
      in case input ''Enter product name: '' w of
           (None, w1) \<Rightarrow> Crash EOFError w1
         | (Some n, w1) \<Rightarrow>
      (case input ''Enter product description: '' w1 of
           (None, w2) \<Rightarrow> Crash EOFError w2
         | (Some d, w2) \<Rightarrow>
      (case input ''Enter product price: '' w2 of
           (None, w3) \<Rightarrow> Crash EOFError w3
         | (Some pr, w3) \<Rightarrow>
      (case input ''Enter product quantity: '' w3 of
           (None, w4) \<Rightarrow> Crash EOFError w4
         | (Some qt, w4) \<Rightarrow>
      (case py_float rnd pr of
           None \<Rightarrow> Crash ValueError w4
         | Some x \<Rightarrow>
      (case py_int qt of
           None \<Rightarrow> Crash ValueError w4
         | Some q \<Rightarrow>
             Continue (print (Print (LF # ''Product added successfully.''))
               (w4\<lparr>products := add_product (products w4)
                      \<lparr>product_id = new_id, name = Some n, desc = Some d, price = x,
                       quantity = q\<rparr>\<rparr>))))))))"

text \<open>The branches \<^verbatim>\<open>view\<close>, \<^verbatim>\<open>update\<close> and \<^verbatim>\<open>delete\<close> catch \<^verbatim>\<open>ValueError\<close>.\<close>

definition view_action :: "'f world \<Rightarrow> 'f step" where
  "view_action w =
     (case input ''Enter product ID: '' w of
        (None, w1) \<Rightarrow> Crash EOFError w1
      | (Some s, w1) \<Rightarrow>
          (case py_int s of
             None \<Rightarrow> Continue (print (Print invalid_id) w1)
           | Some i \<Rightarrow>
               (case get_product_by_id (products w1) i of
                  None \<Rightarrow> Continue (print (Print not_found) w1)
                | Some p \<Rightarrow>
                    (case input (LF # ''Press Enter to go back.'')
                            (print (Details p) (print (Print (LF # ''Product Details:'')) w1)) of
                       (None, w2) \<Rightarrow> Crash EOFError w2
                     | (Some a, w2) \<Rightarrow> Continue w2))))"

definition update_action :: "(float_lit \<Rightarrow> 'f) \<Rightarrow> 'f world \<Rightarrow> 'f step" where
  "update_action rnd w =
     (case input ''Enter product ID to update: '' w of
        (None, w1) \<Rightarrow> Crash EOFError w1
      | (Some s, w1) \<Rightarrow>
          (case py_int s of
             None \<Rightarrow> Continue (print (Print invalid_id) w1)
           | Some i \<Rightarrow>
               (case get_product_by_id (products w1) i of
                  None \<Rightarrow> Continue (print (Print not_found) w1)
                | Some p \<Rightarrow>
                    (case input ''Which field do you want to update? (name, desc, price, quantity): ''
                            (print (Details p) (print (Print (LF # ''Current Product Details:'')) w1)) of
                       (None, w2) \<Rightarrow> Crash EOFError w2
                     | (Some f, w2) \<Rightarrow>
                         (case input (''Enter new value for '' @ lower f @ '': '') w2 of
                            (None, w3) \<Rightarrow> Crash EOFError w3
                          | (Some v, w3) \<Rightarrow>
                              (case update_product rnd (products w3) i (lower f) v of
                                 (ps, None) \<Rightarrow>
                                   Continue (print (Print (LF # ''Product '' @ lower f @ '' updated successfully.''))
                                     (w3\<lparr>products := ps\<rparr>))
                               | (ps, Some e) \<Rightarrow>
                                   if e = ValueError
                                   then Continue (print (Print invalid_id) (w3\<lparr>products := ps\<rparr>))
                                   else Crash e (w3\<lparr>products := ps\<rparr>)))))))"

definition delete_action :: "'f world \<Rightarrow> 'f step" where
  "delete_action w =
     (case input ''Enter product ID to delete: '' w of
        (None, w1) \<Rightarrow> Crash EOFError w1
      | (Some s, w1) \<Rightarrow>
          (case py_int s of
             None \<Rightarrow> Continue (print (Print invalid_id) w1)
           | Some i \<Rightarrow>
               (case get_product_by_id (products w1) i of
                  None \<Rightarrow> Continue (print (Print not_found) w1)
                | Some p \<Rightarrow>
                    Continue (print (Print (LF # ''Product with ID '' @ str_int i @ '' deleted successfully.''))
                      (w1\<lparr>products := remove_product (products w1) i\<rparr>)))))"

text \<open>One turn of \<^verbatim>\<open>while True\<close>.\<close>

definition iteration :: "(float_lit \<Rightarrow> 'f) \<Rightarrow> ('f \<Rightarrow> string) \<Rightarrow> 'f world \<Rightarrow> 'f step" where
  "iteration rnd repr w =
     (case display_products w of
        (w1, Some e) \<Rightarrow> Crash e w1
      | (w1, None) \<Rightarrow>
          (case input ''Enter action: '' (print (Print menu) w1) of
             (None, w2) \<Rightarrow> Crash EOFError w2
           | (Some a, w2) \<Rightarrow>
               if lower a = ''exit''
               then Exit (print (Print ''Exiting the program...'')
                      (w2\<lparr>disk := save_data repr (disk w2) (products w2) ''db_products.csv''\<rparr>))
               else if lower a = ''add'' then add_action rnd w2
               else if lower a = ''view'' then view_action w2
               else if lower a = ''update'' then update_action rnd w2
               else if lower a = ''delete'' then delete_action w2
               else Continue (print (Print ''Invalid action. Please try again.'') w2)))"

text \<open>
  The loop runs \<open>iteration\<close> until it exits or an exception escapes. Every turn that
  continues has read at least the action line, so the loop ends on every finite input.
\<close>

lemma input_stdin:
  "input pr w = (r, w') \<Longrightarrow> length (stdin w') \<le> length (stdin w) \<and> (r \<noteq> None \<longrightarrow> length (stdin w') < length (stdin w))"
  by (auto simp: input_def print_def split: list.splits)

lemma input_Some: "input pr w = (Some l, w') \<Longrightarrow> length (stdin w') < length (stdin w)"
  using input_stdin [of pr w "Some l" w'] by simp

lemma stdin_print [simp]: "stdin (print e w) = stdin w"
  by (simp add: print_def)

lemma display_stdin: "display_products w = (w', e) \<Longrightarrow> stdin w' = stdin w"
  by (auto simp: display_products_def Let_def split: if_splits)

lemma add_action_consumes: "add_action rnd w = Continue w' \<Longrightarrow> length (stdin w') \<le> length (stdin w)"
  unfolding add_action_def Let_def
  by (auto split: prod.splits option.splits dest!: input_Some)

lemma view_action_consumes: "view_action w = Continue w' \<Longrightarrow> length (stdin w') \<le> length (stdin w)"
  unfolding view_action_def
  by (auto split: prod.splits option.splits dest!: input_Some)

lemma update_action_consumes: "update_action rnd w = Continue w' \<Longrightarrow> length (stdin w') \<le> length (stdin w)"
  unfolding update_action_def
  by (auto split: prod.splits option.splits if_splits dest!: input_Some)

lemma delete_action_consumes: "delete_action w = Continue w' \<Longrightarrow> length (stdin w') \<le> length (stdin w)"
  unfolding delete_action_def
  by (auto split: prod.splits option.splits dest!: input_Some)

lemma iteration_consumes:
  "iteration rnd repr w = Continue w' \<Longrightarrow> length (stdin w') < length (stdin w)"
  unfolding iteration_def
  by (auto split: prod.splits option.splits if_splits
      dest!: input_Some display_stdin add_action_consumes view_action_consumes
             update_action_consumes delete_action_consumes)

function main_loop :: "(float_lit \<Rightarrow> 'f) \<Rightarrow> ('f \<Rightarrow> string) \<Rightarrow> 'f world \<Rightarrow> 'f step" where
  "main_loop rnd repr w =
     (case iteration rnd repr w of
        Continue w' \<Rightarrow> main_loop rnd repr w'
      | Exit w' \<Rightarrow> Exit w'
      | Crash e w' \<Rightarrow> Crash e w')"
  by pat_completeness auto
termination
  by (relation "measure (\<lambda>(rnd, repr, w). length (stdin w))") (auto dest: iteration_consumes)

text \<open>\<^verbatim>\<open>main\<close>: a fresh inventory, \<^verbatim>\<open>load_data\<close>, then the loop.\<close>

definition main :: "(float_lit \<Rightarrow> 'f) \<Rightarrow> ('f \<Rightarrow> string) \<Rightarrow> files \<Rightarrow> string list \<Rightarrow> 'f step" where
  "main rnd repr fs lines =
     (case load_data rnd fs [] ''db_products.csv'' of
        (ps, Some e) \<Rightarrow> Crash e \<lparr>products = ps, stdin = lines, stdout = [], disk = fs\<rparr>
      | (ps, None) \<Rightarrow>
          main_loop rnd repr \<lparr>products = ps, stdin = lines, stdout = [], disk = fs\<rparr>)"

fun uncaught :: "'f step \<Rightarrow> error option" where
  "uncaught (Crash e w) = Some e"
| "uncaught (Continue w) = None"
| "uncaught (Exit w) = None"

fun world_of :: "'f step \<Rightarrow> 'f world" where
  "world_of (Crash e w) = w"
| "world_of (Continue w) = w"
| "world_of (Exit w) = w"

section \<open>Notions the properties use\<close>

text \<open>The ids of an inventory are exactly \<open>1, \<dots>, N\<close>, where \<open>N\<close> is the number of products.\<close>

definition dense_ids :: "'f inventory \<Rightarrow> bool" where
  "dense_ids ps = (set (map product_id ps) = {1..int (length ps)})"

text \<open>
  The operations of a session on the inventory: \<^verbatim>\<open>add\<close> gives the new product the id
  \<^verbatim>\<open>get_next_id()\<close>; an \<^verbatim>\<open>update\<close> that raises leaves the inventory as the exception
  left it.
\<close>

datatype 'f operation = Add string string 'f int | Update int string string | Remove int

fun apply_operation :: "(float_lit \<Rightarrow> 'f) \<Rightarrow> 'f inventory \<Rightarrow> 'f operation \<Rightarrow> 'f inventory" where
  "apply_operation rnd ps (Add n d x q) =
     add_product ps \<lparr>product_id = get_next_id ps, name = Some n, desc = Some d, price = x,
                     quantity = q\<rparr>"
| "apply_operation rnd ps (Update i f v) = fst (update_product rnd ps i f v)"
| "apply_operation rnd ps (Remove i) = remove_product ps i"

definition run_operations ::
  "(float_lit \<Rightarrow> 'f) \<Rightarrow> 'f inventory \<Rightarrow> 'f operation list \<Rightarrow> 'f inventory"
where
  "run_operations rnd ps ops = foldl (apply_operation rnd) ps ops"

text \<open>
  A row whose three numeric columns \<^verbatim>\<open>load_data\<close> can convert: each is there, is a
  string, and \<^verbatim>\<open>int\<close> or \<^verbatim>\<open>float\<close> accepts it.
\<close>

definition numeric_ok :: "(float_lit \<Rightarrow> 'f) \<Rightarrow> string list \<Rightarrow> string list \<Rightarrow> bool" where
  "numeric_ok rnd names row =
     ((case row_dict names row ''id'' of Some (Some s) \<Rightarrow> py_int s \<noteq> None | _ \<Rightarrow> False) \<and>
      (case row_dict names row ''price'' of Some (Some s) \<Rightarrow> py_float rnd s \<noteq> None | _ \<Rightarrow> False) \<and>
      (case row_dict names row ''quantity'' of Some (Some s) \<Rightarrow> py_int s \<noteq> None | _ \<Rightarrow> False))"

text \<open>
  To run the model on given inputs the two float parameters need values. In
  \<open>exact_repr\<close> a float is the decimal number itself (\<open>rnd\<close> is the identity) and is
  printed in positional notation with at least one digit after the point, as
  \<^verbatim>\<open>repr\<close> prints the floats used below (9.5 is \<^verbatim>\<open>'9.5'\<close>).
\<close>

fun fraction_digits :: "nat \<Rightarrow> rat \<Rightarrow> string" where
  "fraction_digits 0 f = []"
| "fraction_digits (Suc n) f =
     (if f = 0 then []
      else char_of (48 + nat \<lfloor>f * 10\<rfloor>) # fraction_digits n (f * 10 - of_int \<lfloor>f * 10\<rfloor>))"

definition exact_repr :: "float_lit \<Rightarrow> string" where
  "exact_repr x =
     (case x of
        Decimal neg r \<Rightarrow>
          (if neg then ''-'' else []) @ str_nat (nat \<lfloor>r\<rfloor>) @ ''.'' @
          (if r = of_int \<lfloor>r\<rfloor> then ''0'' else fraction_digits 17 (r - of_int \<lfloor>r\<rfloor>))
      | Infinity neg \<Rightarrow> (if neg then ''-inf'' else ''inf'')
      | NotANumber neg \<Rightarrow> ''nan'')"

section \<open>Sample products\<close>

text \<open>
  Two products for the concrete runs below; their floats are those of \<open>exact_repr\<close>.
\<close>

abbreviation widget :: "int \<Rightarrow> float_lit product" where
  "widget i \<equiv> \<lparr>product_id = i, name = Some ''Widget'', desc = Some ''A small widget'',
               price = Decimal False (19 / 2), quantity = 10\<rparr>"

abbreviation gadget :: "int \<Rightarrow> float_lit product" where
  "gadget i \<equiv> \<lparr>product_id = i, name = Some ''Gadget'', desc = Some ''A large gadget'',
               price = Decimal False 20, quantity = 3\<rparr>"

section \<open>Lemmas about the inventory\<close>

lemma max_id_Max: "max_id m ps = Max (insert m (product_id ` set ps))"
proof (induction ps arbitrary: m)
  case Nil
  then show ?case by simp
next
  case (Cons p ps)
  let ?S = "product_id ` set ps"
  have fin: "finite (insert m ?S)" "finite (insert (product_id p) ?S)" by simp_all
  have "Max (insert (max m (product_id p)) ?S) = Max (insert m (insert (product_id p) ?S))"
  proof (cases "?S = {}")
    case True
    then show ?thesis by (simp add: max.commute)
  next
    case False
    then show ?thesis by (simp add: max.assoc)
  qed
  moreover have "(if m < product_id p then product_id p else m) = max m (product_id p)"
    by (simp add: max_def)
  ultimately show ?case by (simp add: Cons.IH)
qed

lemma upto_shift: "map (\<lambda>i. int i + 1) [0..<n] = [1..int n]"
proof (induction n)
  case 0
  then show ?case by simp
next
  case (Suc n)
  have "[1..int (Suc n)] = [1..int n] @ [int n + 1]"
    using upto_rec2 [of 1 "int n + 1"] by (simp add: add.commute)
  with Suc show ?case by simp
qed

lemma length_renumber: "length (renumber ps) = length ps"
  by (simp add: renumber_def)

lemma ids_renumber: "map product_id (renumber ps) = [1..int (length ps)]"
proof -
  have "map product_id (renumber ps) = map ((\<lambda>i. int i + 1) \<circ> fst) (enumerate 0 ps)"
    by (simp add: renumber_def case_prod_unfold comp_def)
  also have "\<dots> = map (\<lambda>i. int i + 1) (map fst (enumerate 0 ps))"
    by (simp only: map_map)
  also have "\<dots> = map (\<lambda>i. int i + 1) [0..<length ps]"
    by (simp only: map_fst_enumerate add_0)
  finally show ?thesis by (simp only: upto_shift)
qed

lemma renumber_fields:
  "map name (renumber ps) = map name ps"
  "map desc (renumber ps) = map desc ps"
  "map price (renumber ps) = map price ps"
  "map quantity (renumber ps) = map quantity ps"
proof -
  have snd: "map snd (enumerate 0 ps) = ps" by simp
  have "map name (renumber ps) = map (name \<circ> snd) (enumerate 0 ps)"
    by (simp add: renumber_def case_prod_unfold comp_def)
  then have "map name (renumber ps) = map name (map snd (enumerate 0 ps))"
    by (simp only: map_map)
  then show "map name (renumber ps) = map name ps" by (simp only: snd)
  have "map desc (renumber ps) = map (desc \<circ> snd) (enumerate 0 ps)"
    by (simp add: renumber_def case_prod_unfold comp_def)
  then have "map desc (renumber ps) = map desc (map snd (enumerate 0 ps))"
    by (simp only: map_map)
  then show "map desc (renumber ps) = map desc ps" by (simp only: snd)
  have "map price (renumber ps) = map (price \<circ> snd) (enumerate 0 ps)"
    by (simp add: renumber_def case_prod_unfold comp_def)
  then have "map price (renumber ps) = map price (map snd (enumerate 0 ps))"
    by (simp only: map_map)
  then show "map price (renumber ps) = map price ps" by (simp only: snd)
  have "map quantity (renumber ps) = map (quantity \<circ> snd) (enumerate 0 ps)"
    by (simp add: renumber_def case_prod_unfold comp_def)
  then have "map quantity (renumber ps) = map quantity (map snd (enumerate 0 ps))"
    by (simp only: map_map)
  then show "map quantity (renumber ps) = map quantity ps" by (simp only: snd)
qed

lemma renumber_id: "map product_id ps = [1..int (length ps)] \<Longrightarrow> renumber ps = ps"
proof -
  assume a: "map product_id ps = [1..int (length ps)]"
  have "renumber ps ! n = ps ! n" if "n < length ps" for n
  proof -
    have "product_id (ps ! n) = [1..int (length ps)] ! n"
      using a that by (metis nth_map)
    also have "\<dots> = int n + 1"
      using that by (simp add: upto_shift [symmetric])
    finally have "product_id (ps ! n) = int n + 1" .
    then show ?thesis using that by (simp add: renumber_def nth_enumerate_eq)
  qed
  then show ?thesis by (simp add: list_eq_iff_nth_eq length_renumber)
qed

lemma dense_ids_distinct: "dense_ids ps \<Longrightarrow> distinct (map product_id ps)"
proof -
  assume "dense_ids ps"
  then have "card (set (map product_id ps)) = length (map product_id ps)"
    by (simp add: dense_ids_def)
  then show ?thesis by (rule card_distinct)
qed

lemma filter_distinct_split:
  assumes "distinct (map product_id ps)" and "k \<in> product_id ` set ps"
  shows "\<exists>xs y ys. ps = xs @ y # ys \<and> product_id y = k \<and>
           (\<forall>p \<in> set (xs @ ys). product_id p \<noteq> k) \<and>
           filter (\<lambda>p. product_id p \<noteq> k) ps = xs @ ys"
proof -
  from assms(2) obtain y where y: "y \<in> set ps" "product_id y = k" by auto
  then obtain xs ys where split: "ps = xs @ y # ys" by (auto dest: split_list)
  have "product_id y \<notin> product_id ` set xs" "product_id y \<notin> product_id ` set ys"
    using assms(1) unfolding split by simp_all
  then have "\<forall>p \<in> set xs \<union> set ys. product_id p \<noteq> product_id y"
    by (metis Un_iff image_eqI)
  then have other: "\<forall>p \<in> set (xs @ ys). product_id p \<noteq> k"
    using y(2) by simp
  then have "filter (\<lambda>p. product_id p \<noteq> k) ps = xs @ ys"
    using split y by (simp add: filter_id_conv)
  with split y other show ?thesis by blast
qed

lemma get_product_by_id_None: "get_product_by_id ps i = None \<longleftrightarrow> i \<notin> product_id ` set ps"
  by (induction ps) auto

lemma get_product_by_id_split:
  "get_product_by_id ps i = Some p \<Longrightarrow>
   \<exists>xs ys. ps = xs @ p # ys \<and> product_id p = i \<and> (\<forall>q \<in> set xs. product_id q \<noteq> i) \<and>
           (\<forall>f. assign ps i f = xs @ f p # ys)"
proof (induction ps)
  case Nil
  then show ?case by simp
next
  case (Cons a ps)
  show ?case
  proof (cases "product_id a = i")
    case True
    with Cons.prems have "a = p" by simp
    with True have "a # ps = [] @ p # ps \<and> product_id p = i \<and>
        (\<forall>q \<in> set []. product_id q \<noteq> i) \<and> (\<forall>f. assign (a # ps) i f = [] @ f p # ps)"
      by simp
    then show ?thesis by blast
  next
    case False
    with Cons.prems have "get_product_by_id ps i = Some p" by simp
    then obtain xs ys where s: "ps = xs @ p # ys" "product_id p = i"
        "\<forall>q \<in> set xs. product_id q \<noteq> i" "\<forall>f. assign ps i f = xs @ f p # ys"
      using Cons.IH by blast
    with False have "a # ps = (a # xs) @ p # ys \<and> product_id p = i \<and>
        (\<forall>q \<in> set (a # xs). product_id q \<noteq> i) \<and>
        (\<forall>f. assign (a # ps) i f = (a # xs) @ f p # ys)"
      by simp
    then show ?thesis by blast
  qed
qed

lemma ids_assign:
  "(\<And>p. product_id (f p) = product_id p) \<Longrightarrow> map product_id (assign ps i f) = map product_id ps"
  by (induction ps) simp_all

lemma ids_update_product: "map product_id (fst (update_product rnd ps i f v)) = map product_id ps"
  by (simp add: update_product_def ids_assign split: option.split)

lemma dense_ids_next: "dense_ids ps \<Longrightarrow> get_next_id ps = int (length ps) + 1"
proof (cases ps)
  case Nil
  then show ?thesis by simp
next
  case (Cons p qs)
  assume "dense_ids ps"
  then have s: "product_id ` set ps = {1..int (length ps)}" by (simp add: dense_ids_def)
  have "get_next_id ps = Max (product_id ` set ps) + 1"
    using Cons by (simp add: max_id_Max)
  also have "Max (product_id ` set ps) = int (length ps)"
    unfolding s using Cons by (intro Max_eqI) simp_all
  finally show ?thesis by simp
qed

lemma dense_ids_add:
  assumes "dense_ids ps"
  shows "dense_ids (add_product ps \<lparr>product_id = get_next_id ps, name = n, desc = d, price = x, quantity = q\<rparr>)"
proof -
  have "{1..int (length ps) + 1} = insert (int (length ps) + 1) {1..int (length ps)}"
    by auto
  then show ?thesis
    using assms dense_ids_next [OF assms]
    by (simp add: dense_ids_def add_product_def add.commute)
qed

lemma dense_ids_update: "dense_ids ps \<Longrightarrow> dense_ids (fst (update_product rnd ps i f v))"
proof -
  assume a: "dense_ids ps"
  have "length (map product_id (fst (update_product rnd ps i f v))) = length (map product_id ps)"
    by (simp only: ids_update_product)
  then have "length (fst (update_product rnd ps i f v)) = length ps" by simp
  with a show ?thesis
    unfolding dense_ids_def ids_update_product by simp
qed

lemma dense_ids_remove: "dense_ids (remove_product ps i)"
proof -
  have "map product_id (remove_product ps i) = [1..int (length (remove_product ps i))]"
    by (simp add: remove_product_def ids_renumber length_renumber)
  then show ?thesis by (simp add: dense_ids_def)
qed

lemma dense_ids_apply: "dense_ids ps \<Longrightarrow> dense_ids (apply_operation rnd ps op)"
  by (cases op) (simp_all add: dense_ids_add dense_ids_update dense_ids_remove)

lemma dense_ids_run: "dense_ids ps \<Longrightarrow> dense_ids (run_operations rnd ps ops)"
  unfolding run_operations_def
  by (induction ops arbitrary: ps) (simp_all add: dense_ids_apply)

section \<open>Lemmas about loading and the session\<close>

lemma load_rows_error:
  "row \<in> set rows \<Longrightarrow> row_product rnd (row_dict names row) = Inl e \<Longrightarrow>
   snd (load_rows rnd names rows ps) \<noteq> None"
  by (induction rows arbitrary: ps) (auto split: sum.splits)

lemma row_product_numeric:
  "\<not> numeric_ok rnd names row \<Longrightarrow> \<exists>e. row_product rnd (row_dict names row) = Inl e"
  unfolding numeric_ok_def row_product_def and_then_def getitem_def int_arg_def float_arg_def
  by (auto split: option.splits sum.splits)

lemma short_row_not_ok:
  assumes "length row < length fieldnames"
  shows "\<not> numeric_ok rnd fieldnames row"
proof -
  have "length row < 5" using assms by (simp add: fieldnames_def)
  then obtain n where "n < 5" "length row = n" by blast
  then have "row_dict fieldnames row ''quantity'' = Some None"
    by (cases row; cases "tl row"; cases "tl (tl row)"; cases "tl (tl (tl row))";
        cases "tl (tl (tl (tl row)))") (auto simp: row_dict_def fieldnames_def eval_nat_numeral)
  then show ?thesis by (simp add: numeric_ok_def)
qed

lemma products_print [simp]: "products (print e w) = products w"
  by (simp add: print_def)

lemma input_line:
  "stdin w = l # ls \<Longrightarrow> input pr w = (Some l, (print (Prompt pr) w)\<lparr>stdin := ls\<rparr>)"
  by (simp add: input_def)

text \<open>
  In the branches \<^verbatim>\<open>view\<close>, \<^verbatim>\<open>update\<close> and \<^verbatim>\<open>delete\<close> a string that \<^verbatim>\<open>int\<close> rejects,
  and in \<^verbatim>\<open>update\<close> a new value that raises \<^verbatim>\<open>ValueError\<close>, is reported and the loop
  goes on with the inventory as it was. In the branch \<^verbatim>\<open>add\<close> a price or a quantity
  that does not parse ends the program with \<^verbatim>\<open>ValueError\<close>.
\<close>

lemma view_action_catches:
  assumes "stdin w = s # rest" and "py_int s = None"
  shows "\<exists>w'. view_action w = Continue w' \<and> products w' = products w \<and> stdin w' = rest \<and>
              last (stdout w') = Print invalid_id"
  using assms by (simp add: view_action_def input_line print_def)

lemma delete_action_catches:
  assumes "stdin w = s # rest" and "py_int s = None"
  shows "\<exists>w'. delete_action w = Continue w' \<and> products w' = products w \<and> stdin w' = rest \<and>
              last (stdout w') = Print invalid_id"
  using assms by (simp add: delete_action_def input_line print_def)

lemma update_action_catches_id:
  assumes "stdin w = s # rest" and "py_int s = None"
  shows "\<exists>w'. update_action rnd w = Continue w' \<and> products w' = products w \<and> stdin w' = rest \<and>
              last (stdout w') = Print invalid_id"
  using assms by (simp add: update_action_def input_line print_def)

lemma update_action_catches_value:
  assumes "stdin w = s # f # v # rest" and "py_int s = Some i"
      and "get_product_by_id (products w) i = Some p"
      and "snd (update_product rnd (products w) i (lower f) v) = Some ValueError"
  shows "\<exists>w'. update_action rnd w = Continue w' \<and>
              products w' = fst (update_product rnd (products w) i (lower f) v) \<and>
              stdin w' = rest \<and> last (stdout w') = Print invalid_id"
  using assms
  by (cases "update_product rnd (products w) i (lower f) v")
     (simp add: update_action_def input_line print_def input_def)

lemma add_action_raises:
  assumes "stdin w = n # d # pr # qt # rest"
      and "py_float rnd pr = None \<or> py_int qt = None"
  shows "\<exists>w'. add_action rnd w = Crash ValueError w' \<and> products w' = products w \<and> stdin w' = rest"
  using assms
  by (auto simp: add_action_def input_def print_def Let_def split: option.splits)

section \<open>The properties\<close>

subsection \<open>C1: save, then load\<close>

text \<open>
  C1 says that \<^verbatim>\<open>save_data\<close> followed by \<^verbatim>\<open>load_data\<close> into a fresh inventory gives back
  every product, field by field. The program does not do that for a name that holds a
  carriage return: \<^verbatim>\<open>save_data\<close> opens the file with \<^verbatim>\<open>newline=''\<close> and writes the
  character as it is, between quotes; \<^verbatim>\<open>load_data\<close> opens the file without
  \<^verbatim>\<open>newline=''\<close>, so the character comes back as a line feed. The run below saves one
  product whose name is \<open>a\<close>, CR, \<open>b\<close> and loads a product whose name is \<open>a\<close>, LF, \<open>b\<close>.
\<close>

theorem save_load_carriage_return:
  "load_data id
     (save_data exact_repr Map.empty
        [\<lparr>product_id = 1, name = Some (''a'' @ [CR] @ ''b''), desc = Some ''d'',
          price = Decimal False (19 / 2), quantity = 10\<rparr>] ''db_products.csv'')
     [] ''db_products.csv'' =
   ([\<lparr>product_id = 1, name = Some (''a'' @ [LF] @ ''b''), desc = Some ''d'',
      price = Decimal False (19 / 2), quantity = 10\<rparr>], None)"
  by code_simp

subsection \<open>C2: the ids are \<open>1, \<dots>, N\<close>\<close>

text \<open>
  C2 as stated: in every state reached by \<^verbatim>\<open>load_data\<close> at startup and then any
  operations, the ids are exactly \<open>1, \<dots>, N\<close>. It fails right after loading a file
  whose only product has the id 5, before any operation: \<^verbatim>\<open>load_data\<close> takes the ids
  as the file gives them.
\<close>

theorem load_ids_not_dense:
  "\<not> dense_ids (run_operations id
       (fst (load_data id
          [''db_products.csv'' \<mapsto>
             ''id,name,desc,price,quantity'' @ [LF] @ ''5,Widget,A small widget,9.5,10'' @ [LF]]
          [] ''db_products.csv'')) [])"
proof -
  have "load_data id
          [''db_products.csv'' \<mapsto>
             ''id,name,desc,price,quantity'' @ [LF] @ ''5,Widget,A small widget,9.5,10'' @ [LF]]
          [] ''db_products.csv'' = ([widget 5], None)"
    by code_simp
  then show ?thesis by (simp add: dense_ids_def run_operations_def)
qed

text \<open>
  C2, amended: when the inventory that \<^verbatim>\<open>load_data\<close> produced at startup has exactly the
  ids \<open>1, \<dots>, N\<close> (as the empty inventory of a missing file has), then after any
  sequence of add with \<^verbatim>\<open>get_next_id\<close>, update and remove the ids are exactly
  \<open>1, \<dots>, N\<close> for the current number \<open>N\<close> of products, and no two products share an id.
\<close>

theorem dense_ids_preserved:
  assumes "load_data rnd fs [] filename = (ps, err)" and "dense_ids ps"
  shows "dense_ids (run_operations rnd ps ops) \<and>
         distinct (map product_id (run_operations rnd ps ops))"
  using assms(2) by (simp add: dense_ids_run dense_ids_distinct)

theorem dense_ids_preserved_witness:
  "load_data id Map.empty [] ''db_products.csv'' = ([], None) \<and> dense_ids ([] :: float_lit inventory) \<and>
   dense_ids (run_operations id []
     [Add ''Widget'' ''A small widget'' (Decimal False (19 / 2)) 10,
      Add ''Gadget'' ''A large gadget'' (Decimal False 20) 3, Remove 1]) \<and>
   distinct (map product_id (run_operations id []
     [Add ''Widget'' ''A small widget'' (Decimal False (19 / 2)) 10,
      Add ''Gadget'' ''A large gadget'' (Decimal False 20) 3, Remove 1]))"
proof -
  have h1: "load_data id Map.empty [] ''db_products.csv'' = (([], None) :: float_lit inventory \<times> error option)"
    by (simp add: load_data_def)
  have h2: "dense_ids ([] :: float_lit inventory)" by (simp add: dense_ids_def)
  from dense_ids_preserved [OF h1 h2] h1 h2 show ?thesis by simp
qed

subsection \<open>C3: a string that is not a number, at a prompt\<close>

text \<open>
  C3 says that a non-numeric id, price or quantity entered at any prompt is caught at
  the loop, reported, and the loop goes on, also for the price and the quantity of
  \<^verbatim>\<open>add\<close>. The branches \<^verbatim>\<open>view\<close>, \<^verbatim>\<open>update\<close> and \<^verbatim>\<open>delete\<close> do so (the lemmas above);
  the branch \<^verbatim>\<open>add\<close> has no \<^verbatim>\<open>try\<close>. In the run below the user adds a product with
  the price \<^verbatim>\<open>abc\<close>: the program ends with an uncaught \<^verbatim>\<open>ValueError\<close> and never reads
  the next line, \<^verbatim>\<open>exit\<close>.
\<close>

theorem add_bad_price_uncaught:
  "uncaught (main id exact_repr Map.empty
      [''add'', ''Widget'', ''A small widget'', ''abc'', ''10'', ''exit'']) = Some ValueError \<and>
   stdin (world_of (main id exact_repr Map.empty
      [''add'', ''Widget'', ''A small widget'', ''abc'', ''10'', ''exit''])) = [''exit'']"
  by code_simp

subsection \<open>C4: removing a product\<close>

text \<open>
  C4: for every inventory whose ids are exactly \<open>1, \<dots>, N\<close> and every \<open>k\<close> among them,
  \<^verbatim>\<open>remove_product(k)\<close> deletes exactly the product with id \<open>k\<close> (the inventory is
  \<open>xs @ y # ys\<close>, \<open>y\<close> has the id \<open>k\<close> and no other product has), keeps the remaining
  products in their order with their name, description, price and quantity, and gives
  them the ids \<open>1, \<dots>, N - 1\<close> in that order.
\<close>

theorem remove_product_renumbers:
  assumes "set (map product_id ps) = {1..int (length ps)}"
      and "k \<in> {1..int (length ps)}"
  shows "\<exists>xs y ys. ps = xs @ y # ys \<and> product_id y = k \<and>
           (\<forall>p \<in> set (xs @ ys). product_id p \<noteq> k) \<and>
           map name (remove_product ps k) = map name (xs @ ys) \<and>
           map desc (remove_product ps k) = map desc (xs @ ys) \<and>
           map price (remove_product ps k) = map price (xs @ ys) \<and>
           map quantity (remove_product ps k) = map quantity (xs @ ys) \<and>
           map product_id (remove_product ps k) = [1..int (length ps) - 1] \<and>
           set (map product_id (remove_product ps k)) = {1..int (length ps) - 1}"
proof -
  have d: "distinct (map product_id ps)"
    using assms(1) by (simp add: dense_ids_distinct dense_ids_def)
  have "k \<in> product_id ` set ps" using assms by simp
  with d obtain xs y ys where s: "ps = xs @ y # ys" "product_id y = k"
      "\<forall>p \<in> set (xs @ ys). product_id p \<noteq> k"
      "filter (\<lambda>p. product_id p \<noteq> k) ps = xs @ ys"
    using filter_distinct_split by blast
  then have r: "remove_product ps k = renumber (xs @ ys)"
    by (simp add: remove_product_def)
  have len: "int (length (xs @ ys)) = int (length ps) - 1" using s(1) by simp
  have ids: "map product_id (remove_product ps k) = [1..int (length ps) - 1]"
    unfolding r ids_renumber len ..
  show ?thesis
    using s(1,2,3) ids unfolding r by (intro exI conjI) (simp_all add: renumber_fields)
qed

theorem remove_product_renumbers_witness:
  "set (map product_id [widget 1, gadget 2, widget 3]) = {1..int (length [widget 1, gadget 2, widget 3])} \<and>
   2 \<in> {1..int (length [widget 1, gadget 2, widget 3])} \<and>
   map product_id (remove_product [widget 1, gadget 2, widget 3] 2) = [1..2] \<and>
   map name (remove_product [widget 1, gadget 2, widget 3] 2) = [Some ''Widget'', Some ''Widget'']"
proof -
  have h1: "set (map product_id [widget 1, gadget 2, widget 3]) = {1..int (length [widget 1, gadget 2, widget 3])}"
    by auto
  have h2: "2 \<in> {1..int (length [widget 1, gadget 2, widget 3])}" by simp
  from remove_product_renumbers [OF h1 h2] obtain xs y ys where
    s: "[widget 1, gadget 2, widget 3] = xs @ y # ys" "product_id y = 2"
       "\<forall>p \<in> set (xs @ ys). product_id p \<noteq> 2"
       "map name (remove_product [widget 1, gadget 2, widget 3] 2) = map name (xs @ ys)"
       "map product_id (remove_product [widget 1, gadget 2, widget 3] 2) =
          [1..int (length [widget 1, gadget 2, widget 3]) - 1]"
    by blast
  have n: "map name (remove_product [widget 1, gadget 2, widget 3] 2) = [Some ''Widget'', Some ''Widget'']"
    by (simp add: remove_product_def renumber_def)
  from s(5) h1 h2 n show ?thesis by simp
qed

subsection \<open>C5: removing an id that is not there\<close>

text \<open>
  C5 as stated: \<^verbatim>\<open>remove_product\<close> of an absent id leaves the sequence unchanged, ids
  included. It does not: the renumbering runs in every case. An inventory with one
  product of id 5, asked to remove the id 7, ends with that product under the id 1.
\<close>

theorem remove_absent_renumbers:
  "7 \<notin> product_id ` set [widget 5] \<and> remove_product [widget 5] 7 \<noteq> [widget 5]"
  by (simp add: remove_product_def renumber_def)

text \<open>
  C5, amended: for every inventory and every id not present in it,
  \<^verbatim>\<open>remove_product(id)\<close> leaves the order of the products and every product's name,
  description, price and quantity unchanged, and gives the products the ids
  \<open>1, \<dots>, N\<close> in sequence order; the inventory is left completely unchanged exactly
  when its ids already were \<open>1, \<dots>, N\<close> in sequence order.
\<close>

theorem remove_product_absent:
  assumes "k \<notin> product_id ` set ps"
  shows "map name (remove_product ps k) = map name ps \<and>
         map desc (remove_product ps k) = map desc ps \<and>
         map price (remove_product ps k) = map price ps \<and>
         map quantity (remove_product ps k) = map quantity ps \<and>
         map product_id (remove_product ps k) = [1..int (length ps)] \<and>
         (remove_product ps k = ps \<longleftrightarrow> map product_id ps = [1..int (length ps)])"
proof -
  have "filter (\<lambda>p. product_id p \<noteq> k) ps = ps"
    using assms by (auto simp: filter_id_conv)
  then have r: "remove_product ps k = renumber ps" by (simp add: remove_product_def)
  have "renumber ps = ps \<longleftrightarrow> map product_id ps = [1..int (length ps)]"
    using ids_renumber [of ps] renumber_id [of ps] by auto
  then show ?thesis unfolding r by (simp add: renumber_fields ids_renumber)
qed

theorem remove_product_absent_witness:
  "7 \<notin> product_id ` set [widget 1, gadget 2] \<and>
   map name (remove_product [widget 1, gadget 2] 7) = map name [widget 1, gadget 2] \<and>
   map product_id (remove_product [widget 1, gadget 2] 7) = [1..2]"
proof -
  have h: "7 \<notin> product_id ` set [widget 1, gadget 2]" by simp
  from remove_product_absent [OF h] h show ?thesis by simp
qed

subsection \<open>C6: the next id\<close>

text \<open>
  C6: \<^verbatim>\<open>get_next_id()\<close> is 1 on the empty inventory, and on every other inventory the
  maximum of the ids plus 1.
\<close>

theorem get_next_id_max:
  "get_next_id ([] :: 'f inventory) = 1 \<and>
   (ps \<noteq> [] \<longrightarrow> get_next_id ps = Max (set (map product_id ps)) + 1)"
  by (cases ps) (simp_all add: max_id_Max)

theorem get_next_id_max_witness:
  "[widget 5, gadget 2] \<noteq> [] \<and>
   get_next_id [widget 5, gadget 2] = Max (set (map product_id [widget 5, gadget 2])) + 1"
  using get_next_id_max [of "[widget 5, gadget 2]"] by simp

subsection \<open>C7: updating the price or the quantity\<close>

text \<open>
  C7: when the inventory holds a product with the given id, the targeted product is the
  first one with that id, \<open>p\<close> in \<open>xs @ p # ys\<close>. An update of \<^verbatim>\<open>price\<close> with a string
  that \<^verbatim>\<open>float\<close> rejects, or of \<^verbatim>\<open>quantity\<close> with a string that \<^verbatim>\<open>int\<close> rejects, raises
  \<^verbatim>\<open>ValueError\<close> and leaves the whole inventory unchanged; with a string that parses it
  changes that one field of \<open>p\<close> and nothing else.
\<close>

theorem update_product_numeric:
  assumes "i \<in> product_id ` set ps"
  shows "\<exists>xs p ys. ps = xs @ p # ys \<and> product_id p = i \<and> (\<forall>q \<in> set xs. product_id q \<noteq> i) \<and>
     (py_float rnd v = None \<longrightarrow> update_product rnd ps i ''price'' v = (ps, Some ValueError)) \<and>
     (py_int v = None \<longrightarrow> update_product rnd ps i ''quantity'' v = (ps, Some ValueError)) \<and>
     (\<forall>x. py_float rnd v = Some x \<longrightarrow>
          update_product rnd ps i ''price'' v = (xs @ p\<lparr>price := x\<rparr> # ys, None)) \<and>
     (\<forall>n. py_int v = Some n \<longrightarrow>
          update_product rnd ps i ''quantity'' v = (xs @ p\<lparr>quantity := n\<rparr> # ys, None))"
proof -
  from assms obtain p where g: "get_product_by_id ps i = Some p"
    using get_product_by_id_None [of ps i] by (cases "get_product_by_id ps i") auto
  then obtain xs ys where s: "ps = xs @ p # ys" "product_id p = i"
      "\<forall>q \<in> set xs. product_id q \<noteq> i" "\<forall>f. assign ps i f = xs @ f p # ys"
    using get_product_by_id_split by blast
  have a: "py_float rnd v = None \<longrightarrow> update_product rnd ps i ''price'' v = (ps, Some ValueError)"
    using g by (simp add: update_product_def)
  have b: "py_int v = None \<longrightarrow> update_product rnd ps i ''quantity'' v = (ps, Some ValueError)"
    using g by (simp add: update_product_def)
  have c: "\<forall>x. py_float rnd v = Some x \<longrightarrow>
          update_product rnd ps i ''price'' v = (xs @ p\<lparr>price := x\<rparr> # ys, None)"
    using g s(4) by (simp add: update_product_def)
  have d: "\<forall>n. py_int v = Some n \<longrightarrow>
          update_product rnd ps i ''quantity'' v = (xs @ p\<lparr>quantity := n\<rparr> # ys, None)"
    using g s(4) by (simp add: update_product_def)
  show ?thesis
    by (rule exI [of _ xs], rule exI [of _ p], rule exI [of _ ys])
       (intro conjI s(1) s(2) s(3) a b c d)
qed

theorem update_product_numeric_witness:
  "2 \<in> product_id ` set [widget 1, gadget 2] \<and> py_float id ''abc'' = None \<and>
   update_product id [widget 1, gadget 2] 2 ''price'' ''abc'' = ([widget 1, gadget 2], Some ValueError)"
proof -
  have h: "2 \<in> product_id ` set [widget 1, gadget 2]" by simp
  have f: "py_float id ''abc'' = None" by code_simp
  from update_product_numeric [OF h, of id "''abc''"] f h show ?thesis by auto
qed

subsection \<open>C8: loading a file\<close>

text \<open>
  C8 as stated: every file with a malformed row, a missing column included, makes
  \<^verbatim>\<open>load_data\<close> raise. It fails for a file whose header lists \<^verbatim>\<open>name\<close> and \<^verbatim>\<open>desc\<close>
  last and whose row stops before them: \<^verbatim>\<open>DictReader\<close> gives \<^verbatim>\<open>None\<close> for both, and
  \<^verbatim>\<open>load_data\<close> stores the product with \<^verbatim>\<open>None\<close> for its name and description and raises
  nothing.
\<close>

theorem load_missing_columns_silent:
  "load_data id
     [''db_products.csv'' \<mapsto> ''id,price,quantity,name,desc'' @ [LF] @ ''1,9.5,10'' @ [LF]]
     [] ''db_products.csv'' =
   ([\<lparr>product_id = 1, name = None, desc = None, price = Decimal False (19 / 2),
      quantity = 10\<rparr>], None)"
  by code_simp

text \<open>
  C8, amended: for every existing file and every non-empty row after its header,
  \<^verbatim>\<open>load_data\<close> raises when the row's \<^verbatim>\<open>id\<close>, \<^verbatim>\<open>price\<close> or \<^verbatim>\<open>quantity\<close> is missing or
  is not a number, and, when the header is \<^verbatim>\<open>id,name,desc,price,quantity\<close>, whenever
  the row has fewer than five columns. For a path that does not exist \<^verbatim>\<open>load_data\<close>
  raises nothing and leaves a fresh inventory empty.
\<close>

theorem load_data_malformed:
  "(fs filename = Some content \<and> csv_reader (open_read content) = (names # records, e) \<and>
    row \<in> set records \<and> row \<noteq> [] \<and>
    (\<not> numeric_ok rnd names row \<or> names = fieldnames \<and> length row < length fieldnames)
    \<longrightarrow> snd (load_data rnd fs ps filename) \<noteq> None) \<and>
   (fs filename = None \<longrightarrow> load_data rnd fs [] filename = ([], None))"
proof (intro conjI impI)
  assume a: "fs filename = Some content \<and> csv_reader (open_read content) = (names # records, e) \<and>
    row \<in> set records \<and> row \<noteq> [] \<and>
    (\<not> numeric_ok rnd names row \<or> names = fieldnames \<and> length row < length fieldnames)"
  then have "\<not> numeric_ok rnd names row" using short_row_not_ok by blast
  then obtain e' where "row_product rnd (row_dict names row) = Inl e'"
    using row_product_numeric by blast
  moreover have "row \<in> set (filter (\<lambda>row. row \<noteq> []) records)" using a by simp
  ultimately have "snd (load_rows rnd names (filter (\<lambda>row. row \<noteq> []) records) ps) \<noteq> None"
    by (rule load_rows_error [rotated])
  then show "snd (load_data rnd fs ps filename) \<noteq> None"
    using a by (auto simp: load_data_def split: prod.splits option.splits)
next
  assume "fs filename = None"
  then show "load_data rnd fs [] filename = ([], None)" by (simp add: load_data_def)
qed

theorem load_data_malformed_witness:
  "snd (load_data id
     [''db_products.csv'' \<mapsto> ''id,name,desc,price,quantity'' @ [LF] @ ''1,Widget'' @ [LF]]
     ([] :: float_lit inventory) ''db_products.csv'') \<noteq> None \<and>
   load_data id Map.empty ([] :: float_lit inventory) ''db_products.csv'' = ([], None)"
proof -
  have r: "csv_reader (open_read (''id,name,desc,price,quantity'' @ [LF] @ ''1,Widget'' @ [LF])) =
           (fieldnames # [[''1'', ''Widget'']], None)"
    by code_simp
  have a: "snd (load_data id
     [''db_products.csv'' \<mapsto> ''id,name,desc,price,quantity'' @ [LF] @ ''1,Widget'' @ [LF]]
     ([] :: float_lit inventory) ''db_products.csv'') \<noteq> None"
    using load_data_malformed [of "[''db_products.csv'' \<mapsto> ''id,name,desc,price,quantity'' @ [LF] @ ''1,Widget'' @ [LF]]"
        "''db_products.csv''" "''id,name,desc,price,quantity'' @ [LF] @ ''1,Widget'' @ [LF]"
        fieldnames "[[''1'', ''Widget'']]" None "[''1'', ''Widget'']" id "[]"] r
    by (simp add: fieldnames_def)
  have b: "load_data id Map.empty ([] :: float_lit inventory) ''db_products.csv'' = ([], None)"
    using load_data_malformed [of Map.empty "''db_products.csv''" _ _ _ _ _ id]
    by simp
  from a b show ?thesis by simp
qed

subsection \<open>C9: updating a field that does not exist\<close>

text \<open>
  C9: when the inventory holds a product with the given id and the field is none of
  \<^verbatim>\<open>name\<close>, \<^verbatim>\<open>desc\<close>, \<^verbatim>\<open>price\<close>, \<^verbatim>\<open>quantity\<close>, \<^verbatim>\<open>update_product\<close> raises nothing
  and leaves every product unchanged.
\<close>

theorem update_product_unknown_field:
  assumes "i \<in> product_id ` set ps"
      and "field \<notin> {''name'', ''desc'', ''price'', ''quantity''}"
  shows "update_product rnd ps i field v = (ps, None)"
  using assms(2) by (simp add: update_product_def split: option.split)

theorem update_product_unknown_field_witness:
  "2 \<in> product_id ` set [widget 1, gadget 2] \<and>
   ''colour'' \<notin> {''name'', ''desc'', ''price'', ''quantity''} \<and>
   update_product id [widget 1, gadget 2] 2 ''colour'' ''red'' = ([widget 1, gadget 2], None)"
proof -
  have h1: "2 \<in> product_id ` set [widget 1, gadget 2]" by simp
  have h2: "''colour'' \<notin> {''name'', ''desc'', ''price'', ''quantity''}" by simp
  from update_product_unknown_field [OF h1 h2] h1 h2 show ?thesis by simp
qed

subsection \<open>C10: updating an id that is not there\<close>

text \<open>
  C10: when the inventory holds no product with the given id, \<^verbatim>\<open>update_product\<close>
  raises nothing and leaves the inventory unchanged, whatever the field and the new
  value are: the new value is not parsed.
\<close>

theorem update_product_absent:
  assumes "i \<notin> product_id ` set ps"
  shows "update_product rnd ps i field v = (ps, None)"
  using assms by (simp add: update_product_def get_product_by_id_None [symmetric])

theorem update_product_absent_witness:
  "9 \<notin> product_id ` set [widget 1, gadget 2] \<and>
   update_product id [widget 1, gadget 2] 9 ''price'' ''abc'' = ([widget 1, gadget 2], None)"
proof -
  have h: "9 \<notin> product_id ` set [widget 1, gadget 2]" by simp
  from update_product_absent [OF h] h show ?thesis by simp
qed

end
